theory Spec2Isabelle
  imports Complex_Main "HOL-Library.Char_ord" "HOL-Library.List_Lexorder"
begin

section \<open>Python values used by ocr\_worker.py\<close>

text \<open>
  A Python \<open>str\<close> is modelled as a \<open>string\<close> whose characters are the code points
  0..255. A Python \<open>int\<close> is an \<open>int\<close>. A Python \<open>float\<close> is a finite IEEE 754
  binary64 number, modelled by the real number it denotes; a float operation gives the
  exact result rounded to the nearest binary64 number, a tie going to the even
  significand. The infinities, NaN and an operation whose result leaves the binary64
  range are outside this type (there \<open>round\<close> raises in Python).
\<close>

definition NL :: string where
  "NL = [CHR 0x0A]"

text \<open>\<open>str.isspace\<close> on one character, for the code points below 256.\<close>

definition py_isspace :: "char \<Rightarrow> bool" where
  "py_isspace c = (c \<in> set [CHR 0x09, CHR 0x0A, CHR 0x0B, CHR 0x0C, CHR 0x0D,
                             CHR 0x1C, CHR 0x1D, CHR 0x1E, CHR 0x1F, CHR 0x20,
                             CHR 0x85, CHR 0xA0])"

text \<open>\<open>s.strip()\<close>: leading and trailing whitespace removed.\<close>

definition py_strip :: "string \<Rightarrow> string" where
  "py_strip s = rev (dropWhile py_isspace (rev (dropWhile py_isspace s)))"

text \<open>\<open>sep.join(xs)\<close>.\<close>

fun py_join :: "string \<Rightarrow> string list \<Rightarrow> string" where
  "py_join sep [] = []"
| "py_join sep [x] = x"
| "py_join sep (x # y # ys) = x @ sep @ py_join sep (y # ys)"

text \<open>Decimal digits of a natural number, most significant first.\<close>

definition digit_char :: "nat \<Rightarrow> char" where
  "digit_char d = ''0123456789'' ! d"

fun dec_digits :: "nat \<Rightarrow> string" where
  "dec_digits n = (if n < 10 then [digit_char n]
                   else dec_digits (n div 10) @ [digit_char (n mod 10)])"

declare dec_digits.simps [simp del]

text \<open>\<open>str(i)\<close>, which is also what \<open>f"{i}"\<close> gives for an int.\<close>

definition py_str_int :: "int \<Rightarrow> string" where
  "py_str_int i = (if i < 0 then CHR ''-'' # dec_digits (nat (- i)) else dec_digits (nat i))"

text \<open>
  \<open>format(i, "0w")\<close>, as in \<open>f"{hours:02}"\<close>: sign-aware zero padding to a minimum
  width; a longer number is never truncated.
\<close>

definition py_format_zero :: "nat \<Rightarrow> int \<Rightarrow> string" where
  "py_format_zero w i =
     (if i < 0
      then (let ds = dec_digits (nat (- i))
            in CHR ''-'' # replicate ((w - 1) - length ds) CHR ''0'' @ ds)
      else (let ds = dec_digits (nat i)
            in replicate (w - length ds) CHR ''0'' @ ds))"

text \<open>
  \<open>round(x)\<close> with one argument: the nearest integer, a tie going to the even
  neighbour. \<open>int(round(x))\<close> is the same integer.
\<close>

definition py_round :: "real \<Rightarrow> int" where
  "py_round x =
     (let f = \<lfloor>x\<rfloor>; d = x - of_int f
      in if d < 1 / 2 then f
         else if 1 / 2 < d then f + 1
         else if even f then f else f + 1)"

text \<open>
  Rounding to binary64. \<open>floor_log2 x\<close> is the exponent \<open>e\<close> with
  \<open>2 ^ e \<le> x < 2 ^ (e + 1)\<close> for \<open>x > 0\<close>; a binary64 number of that exponent is a
  multiple of \<open>2 ^ (e - 52)\<close>, and below the least normal exponent -1022 the spacing stays
  that of the subnormal numbers.
\<close>

function log2_int :: "int \<Rightarrow> int" where
  "log2_int n = (if n < 2 then 0 else 1 + log2_int (n div 2))"
  by pat_completeness auto
termination
  by (relation "measure nat") auto

declare log2_int.simps [simp del]

definition floor_log2 :: "real \<Rightarrow> int" where
  "floor_log2 x =
     (if 1 \<le> x then log2_int \<lfloor>x\<rfloor> else - (1 + log2_int (\<lceil>1 / x\<rceil> - 1)))"

definition pow2 :: "int \<Rightarrow> real" where
  "pow2 e = (if 0 \<le> e then 2 ^ nat e else 1 / 2 ^ nat (- e))"

definition double_round :: "real \<Rightarrow> real" where
  "double_round x =
     (if x = 0 then 0
      else (let e = max (floor_log2 \<bar>x\<bar>) (- 1022); q = pow2 (e - 52)
            in of_int (py_round (x / q)) * q))"

text \<open>The float product \<open>a * b\<close> and the float sum \<open>a + b\<close>.\<close>

definition float_mul :: "real \<Rightarrow> real \<Rightarrow> real" where
  "float_mul a b = double_round (a * b)"

definition float_add :: "real \<Rightarrow> real \<Rightarrow> real" where
  "float_add a b = double_round (a + b)"

section \<open>The timestamp formatter\<close>

text \<open>
  \<open>seconds_to_srt_time\<close> (lines 36-46). The successive values of the variable
  \<open>millis\<close> are \<open>millis0\<close> .. \<open>millis3\<close>; \<open>value * 1000\<close> is a float product.
\<close>

definition seconds_to_srt_time :: "real \<Rightarrow> string" where
  "seconds_to_srt_time value0 =
     (let value1 = (if value0 < 0 then 0 else value0);
          millis0 = py_round (float_mul value1 1000);
          hours = millis0 div 3600000;
          millis1 = millis0 - hours * 3600000;
          minutes = millis1 div 60000;
          millis2 = millis1 - minutes * 60000;
          seconds = millis2 div 1000;
          millis3 = millis2 - seconds * 1000
      in py_format_zero 2 hours @ '':'' @ py_format_zero 2 minutes @ '':'' @
         py_format_zero 2 seconds @ '','' @ py_format_zero 3 millis3)"

section \<open>The caption assembler\<close>

text \<open>
  The dataclass \<open>FrameInfo\<close> (lines 17-20); its fields \<open>start\<close> and \<open>end\<close> are
  \<open>frame_start\<close> and \<open>frame_end\<close> here.
\<close>

record FrameInfo =
  frame_start :: real
  frame_end :: real

text \<open>The entry appended at line 176: \<open>f"{index}\n{start} --> {end}\n{text}\n"\<close>.\<close>

definition srt_entry :: "int \<Rightarrow> string \<Rightarrow> string \<Rightarrow> string \<Rightarrow> string" where
  "srt_entry index start end text =
     py_str_int index @ NL @ start @ '' --> '' @ end @ NL @ text @ NL"

text \<open>
  The loop of \<open>build_srt\<close> (lines 169-177) over the zipped pairs, with the two loop
  variables \<open>entries\<close> and \<open>index\<close> as accumulators.
\<close>

fun build_srt_loop :: "(FrameInfo \<times> string) list \<Rightarrow> string list \<Rightarrow> int \<Rightarrow> string list \<times> int" where
  "build_srt_loop [] entries index = (entries, index)"
| "build_srt_loop ((frame, text) # rest) entries index =
     (if text = [] then build_srt_loop rest entries index
      else (let start = seconds_to_srt_time (frame_start frame);
                end = seconds_to_srt_time (frame_end frame)
            in if start = end then build_srt_loop rest entries index
               else build_srt_loop rest (entries @ [srt_entry index start end text]) (index + 1)))"

text \<open>The list \<open>entries\<close> when the loop is over.\<close>

definition build_srt_entries :: "FrameInfo list \<Rightarrow> string list \<Rightarrow> string list" where
  "build_srt_entries frames texts = fst (build_srt_loop (zip frames texts) [] 1)"

text \<open>\<open>build_srt\<close> (lines 166-178).\<close>

definition build_srt :: "FrameInfo list \<Rightarrow> string list \<Rightarrow> string" where
  "build_srt frames texts =
     (let entries = build_srt_entries frames texts
      in py_strip (py_join NL entries) @ (if entries \<noteq> [] then NL else []))"

section \<open>More string operations\<close>

text \<open>\<open>str.lower\<close> on one character, for the code points below 256.\<close>

definition py_lower_char :: "char \<Rightarrow> char" where
  "py_lower_char c =
     (let n = (of_char c :: nat)
      in if (65 \<le> n \<and> n \<le> 90) \<or> (192 \<le> n \<and> n \<le> 222 \<and> n \<noteq> 215)
         then char_of (n + 32) else c)"

definition py_lower :: "string \<Rightarrow> string" where
  "py_lower s = map py_lower_char s"

text \<open>\<open>s.split()\<close> without arguments: the maximal runs of non-whitespace.\<close>

fun py_split_aux :: "string \<Rightarrow> string \<Rightarrow> string list" where
  "py_split_aux cur [] = (if cur = [] then [] else [cur])"
| "py_split_aux cur (c # cs) =
     (if py_isspace c
      then (if cur = [] then py_split_aux [] cs else cur # py_split_aux [] cs)
      else py_split_aux (cur @ [c]) cs)"

definition py_split :: "string \<Rightarrow> string list" where
  "py_split s = py_split_aux [] s"

text \<open>
  \<open>s.splitlines()\<close>: the line boundaries below code point 256 are LF, CR, CR LF,
  VT, FF, FS, GS, RS and NEL; a final boundary opens no empty last line.
\<close>

definition py_linebreak :: "char \<Rightarrow> bool" where
  "py_linebreak c = (c \<in> set [CHR 0x0A, CHR 0x0D, CHR 0x0B, CHR 0x0C,
                               CHR 0x1C, CHR 0x1D, CHR 0x1E, CHR 0x85])"

fun py_splitlines_aux :: "string \<Rightarrow> string \<Rightarrow> string list" where
  "py_splitlines_aux cur [] = (if cur = [] then [] else [cur])"
| "py_splitlines_aux cur [c] =
     (if py_linebreak c then [cur] else [cur @ [c]])"
| "py_splitlines_aux cur (c # d # cs) =
     (if c = CHR 0x0D \<and> d = CHR 0x0A then cur # py_splitlines_aux [] cs
      else if py_linebreak c then cur # py_splitlines_aux [] (d # cs)
      else py_splitlines_aux (cur @ [c]) (d # cs))"

definition py_splitlines :: "string \<Rightarrow> string list" where
  "py_splitlines s = py_splitlines_aux [] s"

text \<open>\<open>s.endswith(suffix)\<close>.\<close>

definition py_endswith :: "string \<Rightarrow> string \<Rightarrow> bool" where
  "py_endswith s suffix = (length suffix \<le> length s \<and> drop (length s - length suffix) s = suffix)"

text \<open>
  The functions of \<open>os.path\<close> that the worker calls, as \<open>posixpath\<close> computes them.
\<close>

definition os_path_dirname :: "string \<Rightarrow> string" where
  "os_path_dirname p =
     (let head = rev (dropWhile (\<lambda>c. c \<noteq> CHR ''/'') (rev p))
      in if head \<noteq> [] \<and> head \<noteq> replicate (length head) CHR ''/''
         then rev (dropWhile (\<lambda>c. c = CHR ''/'') (rev head)) else head)"

definition os_path_splitext_root :: "string \<Rightarrow> string" where
  "os_path_splitext_root p =
     (let head = rev (dropWhile (\<lambda>c. c \<noteq> CHR ''/'') (rev p));
          base = rev (takeWhile (\<lambda>c. c \<noteq> CHR ''/'') (rev p))
      in if CHR ''.'' \<notin> set base then p
         else (let stem = rev (tl (dropWhile (\<lambda>c. c \<noteq> CHR ''.'') (rev base)))
               in if list_all (\<lambda>c. c = CHR ''.'') stem then p else head @ stem))"

definition os_path_join :: "string \<Rightarrow> string \<Rightarrow> string" where
  "os_path_join a b =
     (if b \<noteq> [] \<and> hd b = CHR ''/'' then b
      else if a = [] \<or> last a = CHR ''/'' then a @ b
      else a @ ''/'' @ b)"

section \<open>The world outside the worker\<close>

text \<open>
  What \<open>subprocess.run\<close> gives for a command line: the executable is missing
  (Python raises \<open>FileNotFoundError\<close>), or it ran and left a return code, its
  standard output and its standard error.
\<close>

datatype proc = NotFound | Exited int string string

text \<open>The exceptions that travel through the worker.\<close>

datatype error =
    JobError string
  | CalledProcessError "string list" string
  | FileNotFoundError
  | ValueError
  | OSError

text \<open>
  The environment of one run. \<open>json_frames\<close> stands for \<open>json.loads\<close> followed by
  the reading of the \<open>frames\<close> array and the \<open>float\<close> conversions of
  \<open>load_frames\<close>: the pairs (pkt\_pts\_time, pkt\_duration\_time), an absent key as
  \<open>None\<close>, and \<open>None\<close> for the whole when the text does not parse. \<open>listdir\<close>
  is the content of a directory once ffmpeg has run.
\<close>

record world =
  subprocess_run :: "string list \<Rightarrow> proc"
  isfile :: "string \<Rightarrow> bool"
  isdir :: "string \<Rightarrow> bool"
  access_r :: "string \<Rightarrow> bool"
  access_w :: "string \<Rightarrow> bool"
  getsize :: "string \<Rightarrow> nat"
  listdir :: "string \<Rightarrow> string list"
  json_frames :: "string \<Rightarrow> (real option \<times> real option) list option"
  mkdtemp :: "string \<Rightarrow> string"
  open_w_ok :: "string \<Rightarrow> bool"

text \<open>Everything a run does to the outside, in order.\<close>

datatype event =
    Log string
  | Subprocess "string list"
  | Isfile string
  | Isdir string
  | AccessR string
  | AccessW string
  | Getsize string
  | MkTemp string
  | RmTemp string
  | Makedirs string
  | Listdir string
  | WriteFile string string

text \<open>A computation: the events it caused, and an exception or a value.\<close>

type_synonym 'a io = "event list \<times> (error + 'a)"

definition io_return :: "'a \<Rightarrow> 'a io" where
  "io_return x = ([], Inr x)"

definition io_raise :: "error \<Rightarrow> 'a io" where
  "io_raise e = ([], Inl e)"

definition io_bind :: "'a io \<Rightarrow> ('a \<Rightarrow> 'b io) \<Rightarrow> 'b io" where
  "io_bind m f =
     (case m of
        (evs, Inl e) \<Rightarrow> (evs, Inl e)
      | (evs, Inr x) \<Rightarrow> (case f x of (evs', r) \<Rightarrow> (evs @ evs', r)))"

definition emit :: "event \<Rightarrow> unit io" where
  "emit ev = ([ev], Inr ())"

text \<open>\<open>log\<close> (lines 27-28).\<close>

definition log_msg :: "string \<Rightarrow> unit io" where
  "log_msg message = emit (Log message)"

text \<open>\<open>run_command\<close> (lines 31-33); the result is (returncode, stdout, stderr).\<close>

definition run_command :: "world \<Rightarrow> string list \<Rightarrow> bool \<Rightarrow> (int \<times> string \<times> string) io" where
  "run_command w cmd check =
     io_bind (log_msg (''[cmd] '' @ py_join '' '' cmd)) (\<lambda>_.
     io_bind (emit (Subprocess cmd)) (\<lambda>_.
       case subprocess_run w cmd of
         NotFound \<Rightarrow> io_raise FileNotFoundError
       | Exited rc out err \<Rightarrow>
           if check \<and> rc \<noteq> 0 then io_raise (CalledProcessError cmd err)
           else io_return (rc, out, err)))"

section \<open>Language resolution\<close>

definition SUPPORTED_TYPES :: "string set" where
  "SUPPORTED_TYPES = {''vobsub'', ''pgs''}"

definition DEFAULT_LANG :: string where
  "DEFAULT_LANG = ''eng''"

text \<open>The dictionary \<open>aliases\<close> of \<open>normalize_language\<close> (lines 53-60).\<close>

definition aliases :: "string \<rightharpoonup> string" where
  "aliases = map_of
     [(''en'', ''eng''), (''english'', ''eng''), (''ja'', ''jpn''), (''jp'', ''jpn''),
      (''japanese'', ''jpn''), (''und'', DEFAULT_LANG)]"

text \<open>
  \<open>normalize_language\<close> (lines 49-61). \<open>not lang\<close> holds of \<open>None\<close> and of the
  empty string.
\<close>

definition normalize_language :: "string option \<Rightarrow> string" where
  "normalize_language lang =
     (case lang of
        None \<Rightarrow> DEFAULT_LANG
      | Some l \<Rightarrow>
          if l = [] then DEFAULT_LANG
          else (let l' = py_strip (py_lower l)
                in case aliases l' of Some a \<Rightarrow> a | None \<Rightarrow> l'))"

text \<open>\<open>list_tesseract_languages\<close> (lines 64-72).\<close>

definition list_tesseract_languages :: "world \<Rightarrow> string list io" where
  "list_tesseract_languages w =
     (case run_command w [''tesseract'', ''--list-langs''] True of
        (evs, Inl FileNotFoundError) \<Rightarrow> (evs, Inl (JobError ''tesseract not found in PATH''))
      | (evs, Inl e) \<Rightarrow> (evs, Inl e)
      | (evs, Inr (rc, out, err)) \<Rightarrow>
          (let lines = py_splitlines (py_strip out)
           in if lines = [] then (evs, Inr [])
              else (evs, Inr (map py_strip (filter (\<lambda>line. py_strip line \<noteq> []) (tl lines))))))"

text \<open>\<open>resolve_language\<close> (lines 75-83).\<close>

definition resolve_language :: "world \<Rightarrow> string option \<Rightarrow> (string \<times> string list) io" where
  "resolve_language w requested =
     (let normalized = normalize_language requested
      in io_bind (list_tesseract_languages w) (\<lambda>available.
           if normalized \<in> set available then io_return (normalized, available)
           else io_bind (log_msg (''[warn] Requested language '' @ [CHR 0x27] @ normalized @
                                   [CHR 0x27] @ '' not installed. Falling back to '' @
                                   [CHR 0x27] @ DEFAULT_LANG @ [CHR 0x27] @ ''.'')) (\<lambda>_.
                  if DEFAULT_LANG \<notin> set available
                  then io_raise (JobError ''tesseract language data missing (eng not installed)'')
                  else io_return (DEFAULT_LANG, available))))"

section \<open>Path checks\<close>

text \<open>\<open>ensure_readable\<close> (lines 86-92).\<close>

definition ensure_readable :: "world \<Rightarrow> string \<Rightarrow> unit io" where
  "ensure_readable w path =
     (if path = [] then io_raise (JobError ''Missing required file path'')
      else io_bind (emit (Isfile path)) (\<lambda>_.
        if \<not> isfile w path then io_raise (JobError (''File not found: '' @ path))
        else io_bind (emit (AccessR path)) (\<lambda>_.
          if \<not> access_r w path then io_raise (JobError (''File not readable: '' @ path))
          else io_return ())))"

text \<open>\<open>ensure_writable\<close> (lines 95-100).\<close>

definition ensure_writable :: "world \<Rightarrow> string \<Rightarrow> unit io" where
  "ensure_writable w path =
     (let directory = (if os_path_dirname path = [] then ''.'' else os_path_dirname path)
      in io_bind (emit (Isdir directory)) (\<lambda>_.
        if \<not> isdir w directory
        then io_raise (JobError (''Output directory does not exist: '' @ directory))
        else io_bind (emit (AccessW directory)) (\<lambda>_.
          if \<not> access_w w directory
          then io_raise (JobError (''Output directory not writable: '' @ directory))
          else io_return ())))"

section \<open>The adapters of the external tools\<close>

text \<open>
  The body of the loop of \<open>load_frames\<close> (lines 122-125) for one frame;
  \<open>start + max(duration, 0.0)\<close> is a float sum.
\<close>

definition frame_of_json :: "real option \<times> real option \<Rightarrow> FrameInfo" where
  "frame_of_json fr =
     (let start = (case fst fr of None \<Rightarrow> 0 | Some x \<Rightarrow> x);
          duration = (case snd fr of None \<Rightarrow> 0 | Some x \<Rightarrow> x)
      in \<lparr>frame_start = start, frame_end = float_add start (max duration 0)\<rparr>)"

text \<open>\<open>load_frames\<close> (lines 103-126).\<close>

definition load_frames :: "world \<Rightarrow> string \<Rightarrow> FrameInfo list io" where
  "load_frames w input_path =
     io_bind (run_command w
        [''ffprobe'', ''-v'', ''error'', ''-select_streams'', ''s:0'', ''-show_entries'',
         ''frame=pkt_pts_time,pkt_duration_time'', ''-of'', ''json'', input_path] True)
       (\<lambda>(rc, out, err).
          case json_frames w (if out = [] then ''{}'' else out) of
            None \<Rightarrow> io_raise ValueError
          | Some raw \<Rightarrow> io_return (map frame_of_json raw))"

text \<open>\<open>extract_images\<close> (lines 129-154).\<close>

definition extract_images :: "world \<Rightarrow> string \<Rightarrow> string \<Rightarrow> string list io" where
  "extract_images w input_path output_dir =
     io_bind (emit (Makedirs output_dir)) (\<lambda>_.
     (let output_pattern = os_path_join output_dir ''subtitle-%06d.png''
      in io_bind (run_command w
           [''ffmpeg'', ''-v'', ''error'', ''-i'', input_path, ''-map'', ''0:s:0'',
            ''-vsync'', ''0'', ''-f'', ''image2'', output_pattern] True) (\<lambda>_.
         io_bind (emit (Listdir output_dir)) (\<lambda>_.
           io_return (sort (map (os_path_join output_dir)
                        (filter (\<lambda>name. py_endswith (py_lower name) ''.png'')
                           (listdir w output_dir))))))))"

text \<open>\<open>ocr_image\<close> (lines 157-163).\<close>

definition ocr_image :: "world \<Rightarrow> string \<Rightarrow> string \<Rightarrow> string io" where
  "ocr_image w image_path language =
     io_bind (run_command w
        [''tesseract'', image_path, ''stdout'', ''-l'', language, ''--psm'', ''6'',
         ''--dpi'', ''300''] True)
       (\<lambda>(rc, out, err). io_return (py_join '' '' (py_split (py_strip out))))"

text \<open>\<open>validate_output\<close> (lines 181-185).\<close>

definition validate_output :: "world \<Rightarrow> string \<Rightarrow> unit io" where
  "validate_output w path =
     io_bind (emit (Isfile path)) (\<lambda>_.
       if \<not> isfile w path then io_raise (JobError ''Output SRT not created'')
       else io_bind (emit (Getsize path)) (\<lambda>_.
         if getsize w path = 0 then io_raise (JobError ''Output SRT is empty'')
         else io_return ()))"

section \<open>The job pipeline\<close>

text \<open>
  A job is the dictionary read from the job file; its fields are strings, and a
  missing key or a JSON null is \<open>None\<close>.
\<close>

type_synonym job = "string \<rightharpoonup> string"

text \<open>
  The choice of the input path (lines 200-213): the \<open>idx\<close> file and its \<open>.sub\<close>
  companion for a vobsub job, the \<open>bitmap_file\<close> otherwise.
\<close>

definition job_input_path :: "world \<Rightarrow> job \<Rightarrow> string \<Rightarrow> string io" where
  "job_input_path w job job_type =
     (if job_type = ''vobsub''
      then (case job ''idx'' of
              None \<Rightarrow> io_raise (JobError ''Missing idx path for vobsub job'')
            | Some idx_path \<Rightarrow>
                if idx_path = [] then io_raise (JobError ''Missing idx path for vobsub job'')
                else io_bind (ensure_readable w idx_path) (\<lambda>_.
                  (let companion = os_path_splitext_root idx_path @ ''.sub''
                   in io_bind (ensure_readable w companion) (\<lambda>_. io_return idx_path))))
      else (case job ''bitmap_file'' of
              None \<Rightarrow> io_raise (JobError ''Missing bitmap_file path for pgs job'')
            | Some bitmap_path \<Rightarrow>
                if bitmap_path = [] then io_raise (JobError ''Missing bitmap_file path for pgs job'')
                else io_bind (ensure_readable w bitmap_path) (\<lambda>_. io_return bitmap_path)))"

text \<open>\<open>try: ... except subprocess.CalledProcessError as exc: ...\<close>\<close>

definition io_catch_called_process_error ::
    "'a io \<Rightarrow> (string list \<Rightarrow> string \<Rightarrow> 'a io) \<Rightarrow> 'a io" where
  "io_catch_called_process_error m handler =
     (case m of
        (evs, Inl (CalledProcessError cmd stderr)) \<Rightarrow>
          (case handler cmd stderr of (evs', r) \<Rightarrow> (evs @ evs', r))
      | (evs, r) \<Rightarrow> (evs, r))"

text \<open>
  The recognition loop (lines 240-247), with the list \<open>texts\<close> as accumulator.
\<close>

fun recognize_loop :: "world \<Rightarrow> string \<Rightarrow> string list \<Rightarrow> string list \<Rightarrow> string list io" where
  "recognize_loop w language [] texts = io_return texts"
| "recognize_loop w language (image_path # rest) texts =
     io_bind
       (io_catch_called_process_error (ocr_image w image_path language)
          (\<lambda>cmd stderr.
             io_bind (log_msg (''[error] OCR failed on '' @ image_path @ '': '' @ py_strip stderr))
               (\<lambda>_. io_return [])))
       (\<lambda>text. recognize_loop w language rest (texts @ [text]))"

text \<open>
  \<open>with tempfile.TemporaryDirectory(prefix=...) as tempdir\<close>: the directory is made,
  the body runs, and the directory is removed whatever the body did.
\<close>

definition with_temporary_directory :: "world \<Rightarrow> string \<Rightarrow> (string \<Rightarrow> 'a io) \<Rightarrow> 'a io" where
  "with_temporary_directory w prefix body =
     (let tempdir = mkdtemp w prefix
      in case body tempdir of (evs, r) \<Rightarrow> (MkTemp tempdir # evs @ [RmTemp tempdir], r))"

text \<open>The size in bytes of a text written with \<open>encoding="utf-8"\<close>.\<close>

definition utf8_size :: "string \<Rightarrow> nat" where
  "utf8_size s = sum_list (map (\<lambda>c. if (of_char c :: nat) < 128 then 1 else 2) s)"

text \<open>
  \<open>with open(path, "w", encoding="utf-8") as handle: handle.write(content)\<close>
  (lines 254-255); the result is the world in which the file has been written.
\<close>

definition write_text :: "world \<Rightarrow> string \<Rightarrow> string \<Rightarrow> world io" where
  "write_text w path content =
     (if \<not> open_w_ok w path then io_raise OSError
      else io_bind (emit (WriteFile path content)) (\<lambda>_.
        io_return (w\<lparr>isfile := (isfile w)(path := True),
                      getsize := (getsize w)(path := utf8_size content)\<rparr>)))"

text \<open>
  The body of the \<open>with\<close> block of \<open>process_job\<close> (lines 228-255). \<open>Inl code\<close> is a
  \<open>return code\<close> inside the block, \<open>Inr w'\<close> the world after the write when control
  leaves the block at its end.
\<close>

definition process_job_extract ::
    "world \<Rightarrow> string \<Rightarrow> string \<Rightarrow> string \<Rightarrow> FrameInfo list \<Rightarrow> string \<Rightarrow> (int + world) io" where
  "process_job_extract w srt_output input_path language frames tempdir =
     (let images_dir = os_path_join tempdir ''frames''
      in io_bind (extract_images w input_path images_dir) (\<lambda>images.
           if images = []
           then io_bind (log_msg ''[warn] No images extracted.'') (\<lambda>_. io_return (Inl 2))
           else io_bind
                  (if length images \<noteq> length frames
                   then log_msg (''[warn] Frame count mismatch (frames='' @
                                 py_str_int (int (length frames)) @ '' images='' @
                                 py_str_int (int (length images)) @ ''). Using minimum count.'')
                   else io_return ()) (\<lambda>_.
                  (let count = min (length images) (length frames)
                   in io_bind (recognize_loop w language (take count images) []) (\<lambda>texts.
                        (let srt_content = build_srt (take count frames) texts
                         in if py_strip srt_content = []
                            then io_bind (log_msg ''[warn] OCR produced empty output.'')
                                   (\<lambda>_. io_return (Inl 2))
                            else io_bind (write_text w srt_output srt_content)
                                   (\<lambda>w'. io_return (Inr w'))))))))"

text \<open>\<open>process_job\<close> (lines 188-259).\<close>

definition process_job :: "world \<Rightarrow> job \<Rightarrow> bool \<Rightarrow> int io" where
  "process_job w job dry_run =
     (let job_type = py_strip (py_lower (case job ''type'' of None \<Rightarrow> [] | Some t \<Rightarrow> t))
      in if job_type \<notin> SUPPORTED_TYPES
         then io_bind (log_msg (''[warn] Unsupported type '' @ [CHR 0x27] @ job_type @
                                [CHR 0x27] @ ''. Marking as needs-review.''))
                (\<lambda>_. io_return 2)
         else (case job ''srt_output'' of
                 None \<Rightarrow> io_raise (JobError ''Missing srt_output in job'')
               | Some srt_output \<Rightarrow>
                   if srt_output = [] then io_raise (JobError ''Missing srt_output in job'')
                   else
                     io_bind (ensure_writable w srt_output) (\<lambda>_.
                     io_bind (job_input_path w job job_type) (\<lambda>input_path.
                     io_bind (resolve_language w (job ''language'')) (\<lambda>(language, available).
                     io_bind (log_msg (''[info] Using tesseract language: '' @ language)) (\<lambda>_.
                     io_bind (load_frames w input_path) (\<lambda>frames.
                       if frames = []
                       then io_bind (log_msg ''[warn] No subtitle frames detected.'')
                              (\<lambda>_. io_return 2)
                       else if dry_run
                       then io_bind (log_msg ''[info] Dry run successful.'') (\<lambda>_. io_return 0)
                       else
                         io_bind (with_temporary_directory w ''ocr_worker_''
                                    (process_job_extract w srt_output input_path language frames))
                           (\<lambda>r. case r of
                                   Inl code \<Rightarrow> io_return code
                                 | Inr w' \<Rightarrow>
                                     io_bind (validate_output w' srt_output) (\<lambda>_.
                                     io_bind (log_msg (''[info] Wrote SRT: '' @ srt_output)) (\<lambda>_.
                                     io_return 0))))))))))"

text \<open>
  The exit status that \<open>entrypoint\<close> (lines 312-324) gives to the outcome of the
  job: every exception ends in \<open>sys.exit(1)\<close>, a returned code is passed on.
\<close>

definition exit_status :: "int io \<Rightarrow> int" where
  "exit_status r = (case snd r of Inl e \<Rightarrow> 1 | Inr code \<Rightarrow> code)"

section \<open>Notions used in the statements\<close>

text \<open>A decimal digit, and the number that a string of digits denotes.\<close>

definition is_digit :: "char \<Rightarrow> bool" where
  "is_digit c = (c \<in> set ''0123456789'')"


text \<open>
  A pair of the zipped input that the assembler keeps: its text is not empty and its
  two formatted timestamps differ.
\<close>

definition caption_kept :: "FrameInfo \<times> string \<Rightarrow> bool" where
  "caption_kept p =
     (snd p \<noteq> [] \<and>
      seconds_to_srt_time (frame_start (fst p)) \<noteq> seconds_to_srt_time (frame_end (fst p)))"

text \<open>The block of the output for a numbered pair.\<close>

definition caption_block :: "nat \<times> FrameInfo \<times> string \<Rightarrow> string" where
  "caption_block q =
     srt_entry (int (fst q)) (seconds_to_srt_time (frame_start (fst (snd q))))
       (seconds_to_srt_time (frame_end (fst (snd q)))) (snd (snd q))"

text \<open>The command line of \<open>ocr_image\<close> for an image and a language.\<close>

definition ocr_command :: "string \<Rightarrow> string \<Rightarrow> string list" where
  "ocr_command image_path language =
     [''tesseract'', image_path, ''stdout'', ''-l'', language, ''--psm'', ''6'', ''--dpi'', ''300'']"

text \<open>
  The text that stands at the position of an image after the recognition loop: the
  normalised output of the engine, or the empty text when the engine exits with a
  non-zero code.
\<close>

definition frame_text :: "world \<Rightarrow> string \<Rightarrow> string \<Rightarrow> string" where
  "frame_text w language image_path =
     (case subprocess_run w (ocr_command image_path language) of
        NotFound \<Rightarrow> []
      | Exited rc out err \<Rightarrow> if rc = 0 then py_join '' '' (py_split (py_strip out)) else [])"

text \<open>The events of the recognition of one image.\<close>

definition frame_events :: "world \<Rightarrow> string \<Rightarrow> string \<Rightarrow> event list" where
  "frame_events w language image_path =
     [Log (''[cmd] '' @ py_join '' '' (ocr_command image_path language)),
      Subprocess (ocr_command image_path language)] @
     (case subprocess_run w (ocr_command image_path language) of
        NotFound \<Rightarrow> []
      | Exited rc out err \<Rightarrow>
          if rc = 0 then []
          else [Log (''[error] OCR failed on '' @ image_path @ '': '' @ py_strip err)])"

text \<open>
  The events of image extraction, of recognition and of work in the temporary or the
  output storage: everything but log lines, the checks of the job's paths, the query
  of the installed languages and the timing probe.
\<close>

fun extraction_event :: "event \<Rightarrow> bool" where
  "extraction_event (MkTemp d) = True"
| "extraction_event (RmTemp d) = True"
| "extraction_event (Makedirs d) = True"
| "extraction_event (Listdir d) = True"
| "extraction_event (WriteFile p c) = True"
| "extraction_event (Subprocess cmd) =
     (cmd \<noteq> [''tesseract'', ''--list-langs''] \<and> take 1 cmd \<noteq> [''ffprobe''])"
| "extraction_event (Log m) = False"
| "extraction_event (Isfile p) = False"
| "extraction_event (Isdir p) = False"
| "extraction_event (AccessR p) = False"
| "extraction_event (AccessW p) = False"
| "extraction_event (Getsize p) = False"

text \<open>The lines that the worker logs on the paths that the statements follow.\<close>

definition warn_not_installed :: "string \<Rightarrow> event" where
  "warn_not_installed normalized =
     Log (''[warn] Requested language '' @ [CHR 0x27] @ normalized @ [CHR 0x27] @
          '' not installed. Falling back to '' @ [CHR 0x27] @ DEFAULT_LANG @ [CHR 0x27] @ ''.'')"

definition warn_unsupported :: "string \<Rightarrow> event" where
  "warn_unsupported job_type =
     Log (''[warn] Unsupported type '' @ [CHR 0x27] @ job_type @ [CHR 0x27] @
          ''. Marking as needs-review.'')"

text \<open>The type of a job as \<open>process_job\<close> reads it: case-folded and trimmed.\<close>

definition job_type_of :: "job \<Rightarrow> string" where
  "job_type_of job = py_strip (py_lower (case job ''type'' of None \<Rightarrow> [] | Some t \<Rightarrow> t))"

text \<open>
  A piece of output that starts with a non-blank character and ends with exactly one
  line feed after a non-blank character.
\<close>

definition tight_block :: "string \<Rightarrow> bool" where
  "tight_block b =
     (2 \<le> length b \<and> last b = CHR 0x0A \<and> \<not> py_isspace (hd b) \<and>
      \<not> py_isspace (last (butlast b)))"

subsection \<open>A sample world and a sample job\<close>

definition demo_run :: "string list \<Rightarrow> proc" where
  "demo_run cmd =
     (if cmd = [''tesseract'', ''--list-langs'']
      then Exited 0 (''List of available languages (2):'' @ NL @ ''eng'' @ NL @ ''jpn'' @ NL) []
      else if take 1 cmd = [''ffprobe''] then Exited 0 ''json'' []
      else if take 1 cmd = [''ffmpeg''] then Exited 0 [] []
      else if take 2 cmd = [''tesseract'', ''/tmp/t/frames/subtitle-000001.png'']
      then Exited 0 ('' HELLO   THERE '' @ NL) []
      else Exited 1 [] (''boom'' @ NL))"

definition demo_world :: world where
  "demo_world =
     \<lparr>subprocess_run = demo_run,
      isfile = (\<lambda>p. p = ''a.idx'' \<or> p = ''a.sub''),
      isdir = (\<lambda>p. p = ''.''),
      access_r = (\<lambda>p. True),
      access_w = (\<lambda>p. True),
      getsize = (\<lambda>p. 0),
      listdir = (\<lambda>d. [''subtitle-000002.png'', ''subtitle-000001.png'', ''notes.txt'']),
      json_frames = (\<lambda>s. Some [(Some 0, Some (3 / 2)), (Some 2, Some 1), (Some 4, None)]),
      mkdtemp = (\<lambda>p. ''/tmp/t''),
      open_w_ok = (\<lambda>p. True)\<rparr>"

definition demo_job :: job where
  "demo_job = [''type'' \<mapsto> ''VobSub '', ''idx'' \<mapsto> ''a.idx'',
               ''srt_output'' \<mapsto> ''out.srt'', ''language'' \<mapsto> ''en'']"

definition demo_frames :: "FrameInfo list" where
  "demo_frames =
     [\<lparr>frame_start = 0, frame_end = 3 / 2\<rparr>, \<lparr>frame_start = 3 / 2, frame_end = 3 / 2\<rparr>,
      \<lparr>frame_start = 2, frame_end = 3\<rparr>, \<lparr>frame_start = 3, frame_end = 4\<rparr>,
      \<lparr>frame_start = 4, frame_end = 5\<rparr>]"

definition demo_texts :: "string list" where
  "demo_texts = [''HELLO'', ''WORLD'', [], ''BYE'']"


definition demo_frames5 :: "FrameInfo list" where
  "demo_frames5 =
     [\<lparr>frame_start = 0, frame_end = 1\<rparr>, \<lparr>frame_start = 1, frame_end = 2\<rparr>,
      \<lparr>frame_start = 2, frame_end = 3\<rparr>, \<lparr>frame_start = 3, frame_end = 4\<rparr>,
      \<lparr>frame_start = 4, frame_end = 5\<rparr>]"

definition demo_texts3 :: "string list" where
  "demo_texts3 = [''ONE'', ''TWO'', ''THREE'']"

section \<open>Properties\<close>

subsection \<open>The assembler loop\<close>

text \<open>
  The loop appends one block for each kept pair, in order, numbered from the value
  of \<open>index\<close> at entry.
\<close>

lemma build_srt_loop_enumerate:
  "build_srt_loop ps entries (int n) =
     (entries @ map caption_block (enumerate n (filter caption_kept ps)),
      int (n + length (filter caption_kept ps)))"
proof (induction ps arbitrary: entries n)
  case Nil
  then show ?case by simp
next
  case (Cons p ps)
  obtain frame t where p: "p = (frame, t)" by (cases p)
  have step: "int n + 1 = int (Suc n)" by simp
  show ?case
  proof (cases "caption_kept p")
    case True
    then show ?thesis
      using Cons.IH [of "entries @ [caption_block (n, p)]" "Suc n"]
      by (simp add: p caption_kept_def caption_block_def Let_def step del: of_nat_Suc)
  next
    case False
    then show ?thesis
      using Cons.IH [of entries n]
      by (auto simp add: p caption_kept_def Let_def)
  qed
qed

lemma build_srt_entries_enumerate:
  "build_srt_entries frames texts =
     map caption_block (enumerate 1 (filter caption_kept (zip frames texts)))"
  using build_srt_loop_enumerate [of "zip frames texts" "[]" 1]
  by (simp add: build_srt_entries_def)

lemma demo_entries:
  "build_srt_entries demo_frames demo_texts =
     [srt_entry 1 ''00:00:00,000'' ''00:00:01,500'' ''HELLO'',
      srt_entry 2 ''00:00:03,000'' ''00:00:04,000'' ''BYE'']"
  by code_simp

text \<open>
  Claim C1. Whatever the frames and the texts, every entry that \<open>build_srt\<close> emits
  comes from a positional pair whose text is not empty and whose formatted start
  differs from its formatted end; the pairs that fail this test add nothing, so
  there are exactly as many entries as kept pairs.
\<close>

theorem build_srt_never_emits_degenerate:
  "length (build_srt_entries frames texts) = length (filter caption_kept (zip frames texts)) \<and>
   (\<forall>e \<in> set (build_srt_entries frames texts).
      \<exists>index frame t.
        (frame, t) \<in> set (zip frames texts) \<and>
        e = srt_entry index (seconds_to_srt_time (frame_start frame))
              (seconds_to_srt_time (frame_end frame)) t \<and>
        t \<noteq> [] \<and>
        seconds_to_srt_time (frame_start frame) \<noteq> seconds_to_srt_time (frame_end frame))"
proof (intro conjI ballI)
  show "length (build_srt_entries frames texts) = length (filter caption_kept (zip frames texts))"
    by (simp add: build_srt_entries_enumerate)
next
  fix e assume "e \<in> set (build_srt_entries frames texts)"
  then obtain k p where kp: "(k, p) \<in> set (enumerate 1 (filter caption_kept (zip frames texts)))"
      and e: "e = caption_block (k, p)"
    by (auto simp: build_srt_entries_enumerate)
  from kp have "snd (k, p) \<in> snd ` set (enumerate 1 (filter caption_kept (zip frames texts)))"
    by (rule imageI)
  then have "p \<in> set (map snd (enumerate 1 (filter caption_kept (zip frames texts))))"
    by (simp only: set_map snd_conv)
  then have "p \<in> set (filter caption_kept (zip frames texts))"
    by (simp only: map_snd_enumerate)
  then have mem: "p \<in> set (zip frames texts)" and kept: "caption_kept p" by auto
  obtain frame t where p: "p = (frame, t)" by (cases p)
  show "\<exists>index frame t.
        (frame, t) \<in> set (zip frames texts) \<and>
        e = srt_entry index (seconds_to_srt_time (frame_start frame))
              (seconds_to_srt_time (frame_end frame)) t \<and>
        t \<noteq> [] \<and>
        seconds_to_srt_time (frame_start frame) \<noteq> seconds_to_srt_time (frame_end frame)"
    using mem kept e unfolding p caption_kept_def caption_block_def by auto
qed

theorem build_srt_never_emits_degenerate_witness:
  "srt_entry 2 ''00:00:03,000'' ''00:00:04,000'' ''BYE''
     \<in> set (build_srt_entries demo_frames demo_texts) \<and>
   length (build_srt_entries demo_frames demo_texts) = 2 \<and>
   length (filter caption_kept (zip demo_frames demo_texts)) = 2 \<and>
   (\<exists>index frame t.
        (frame, t) \<in> set (zip demo_frames demo_texts) \<and>
        srt_entry 2 ''00:00:03,000'' ''00:00:04,000'' ''BYE'' =
          srt_entry index (seconds_to_srt_time (frame_start frame))
              (seconds_to_srt_time (frame_end frame)) t \<and>
        t \<noteq> [] \<and>
        seconds_to_srt_time (frame_start frame) \<noteq> seconds_to_srt_time (frame_end frame))"
proof -
  have mem: "srt_entry 2 ''00:00:03,000'' ''00:00:04,000'' ''BYE''
               \<in> set (build_srt_entries demo_frames demo_texts)"
    by (simp add: demo_entries)
  have len: "length (build_srt_entries demo_frames demo_texts) = 2"
    by (simp add: demo_entries)
  from build_srt_never_emits_degenerate [of demo_frames demo_texts] mem len
  show ?thesis by auto
qed

subsection \<open>Digits\<close>


lemma digit_char_is_digit: "d < 10 \<Longrightarrow> is_digit (digit_char d)"
proof -
  assume "d < 10"
  then have "d \<in> {0,1,2,3,4,5,6,7,8,9}" by auto
  then show ?thesis by (auto simp: is_digit_def digit_char_def)
qed

lemma dec_digits_all_digits: "c \<in> set (dec_digits n) \<Longrightarrow> is_digit c"
proof (induction n arbitrary: c rule: dec_digits.induct)
  case (1 n)
  show ?case
  proof (cases "n < 10")
    case True
    with 1(2) show ?thesis by (subst (asm) dec_digits.simps) (simp add: digit_char_is_digit)
  next
    case False
    from 1(2) have "c \<in> set (dec_digits (n div 10)) \<or> c = digit_char (n mod 10)"
      by (subst (asm) dec_digits.simps) (use False in auto)
    with 1(1) False show ?thesis by (auto simp: digit_char_is_digit)
  qed
qed

lemma dec_digits_nonempty: "dec_digits n \<noteq> []"
  by (subst dec_digits.simps) simp

lemma is_digit_not_space: "is_digit c \<Longrightarrow> \<not> py_isspace c"
  by (auto simp: is_digit_def py_isspace_def)

lemma py_str_int_nat_digits: "c \<in> set (py_str_int (int n)) \<Longrightarrow> is_digit c"
  by (simp add: py_str_int_def dec_digits_all_digits)

lemma first_line_srt_entry:
  "takeWhile (\<lambda>c. c \<noteq> CHR 0x0A) (srt_entry (int n) s e t) = py_str_int (int n)"
proof -
  have "\<And>c. c \<in> set (py_str_int (int n)) \<Longrightarrow> c \<noteq> CHR 0x0A"
    using py_str_int_nat_digits [of _ n] by (auto simp: is_digit_def)
  then show ?thesis
    by (simp add: srt_entry_def NL_def takeWhile_append2)
qed

text \<open>
  Claim C2. The emitted entries are the kept pairs numbered 1, 2, 3, ... in order of
  emission: the numbers are those of the positions in the list of kept pairs, so a
  dropped pair uses no number, and the first line of the entry at position \<open>k\<close>
  (from 0) is the decimal numeral of \<open>k + 1\<close>.
\<close>

theorem build_srt_numbers_contiguous:
  "build_srt_entries frames texts =
     map caption_block (enumerate 1 (filter caption_kept (zip frames texts))) \<and>
   map fst (enumerate 1 (filter caption_kept (zip frames texts))) =
     [1 ..< Suc (length (filter caption_kept (zip frames texts)))] \<and>
   (\<forall>k < length (build_srt_entries frames texts).
      takeWhile (\<lambda>c. c \<noteq> CHR 0x0A) (build_srt_entries frames texts ! k) =
        py_str_int (int k + 1))"
proof (intro conjI allI impI)
  show "build_srt_entries frames texts =
     map caption_block (enumerate 1 (filter caption_kept (zip frames texts)))"
    by (rule build_srt_entries_enumerate)
next
  show "map fst (enumerate 1 (filter caption_kept (zip frames texts))) =
     [1 ..< Suc (length (filter caption_kept (zip frames texts)))]"
    by simp
next
  fix k assume k: "k < length (build_srt_entries frames texts)"
  let ?kept = "filter caption_kept (zip frames texts)"
  from k have k': "k < length ?kept" by (simp add: build_srt_entries_enumerate)
  then have "build_srt_entries frames texts ! k = caption_block (Suc k, ?kept ! k)"
    by (simp add: build_srt_entries_enumerate nth_enumerate_eq)
  then show "takeWhile (\<lambda>c. c \<noteq> CHR 0x0A) (build_srt_entries frames texts ! k) =
        py_str_int (int k + 1)"
    using first_line_srt_entry [of "Suc k"]
    by (simp add: caption_block_def add.commute del: of_nat_Suc) (simp add: add.commute)
qed

theorem build_srt_numbers_contiguous_witness:
  "(1::nat) < length (build_srt_entries demo_frames demo_texts) \<and>
   takeWhile (\<lambda>c. c \<noteq> CHR 0x0A) (build_srt_entries demo_frames demo_texts ! 1) = ''2'' \<and>
   length (zip demo_frames demo_texts) = 4"
proof -
  have len: "(1::nat) < length (build_srt_entries demo_frames demo_texts)"
    by (simp add: demo_entries)
  have two: "py_str_int (int 1 + 1) = ''2''" by code_simp
  have zl: "length (zip demo_frames demo_texts) = 4" by (simp add: demo_frames_def demo_texts_def)
  from build_srt_numbers_contiguous [of demo_frames demo_texts] len two zl
  show ?thesis by auto
qed

lemma zip_as_indexed_pairs:
  "zip xs ys = map (\<lambda>i. (xs ! i, ys ! i)) [0 ..< min (length xs) (length ys)]"
  by (rule nth_equalityI) simp_all

lemma kept_pair_has_block:
  assumes "p \<in> set ps" and "caption_kept p"
  shows "\<exists>k. caption_block (k, p) \<in> set (map caption_block (enumerate n (filter caption_kept ps)))"
proof -
  from assms have "p \<in> set (filter caption_kept ps)" by simp
  then have "p \<in> set (map snd (enumerate n (filter caption_kept ps)))"
    by (simp only: map_snd_enumerate)
  then have "p \<in> snd ` set (enumerate n (filter caption_kept ps))"
    by (simp only: set_map)
  then obtain q where q: "q \<in> set (enumerate n (filter caption_kept ps))" and pq: "p = snd q"
    by (rule imageE)
  from pq have "q = (fst q, p)" by simp
  with q have "(fst q, p) \<in> set (enumerate n (filter caption_kept ps))" by simp
  then have "caption_block (fst q, p) \<in> caption_block ` set (enumerate n (filter caption_kept ps))"
    by (rule imageI)
  then show ?thesis by auto
qed

text \<open>
  Claim C3. With \<open>n = min (len frames) (len texts)\<close>, the pairs that \<open>build_srt\<close>
  reads are exactly \<open>(frames[i], texts[i])\<close> for \<open>i = 0, ..., n - 1\<close>, in this order:
  the emitted entries are the blocks of the kept ones among these \<open>n\<close> pairs, each
  kept pair among them has its block in the output, the result is that of the two
  lists cut to length \<open>n\<close>, and every index read is below both lengths. With five
  frames and three texts the pairs are those at the indices 0, 1 and 2.
\<close>

theorem build_srt_processes_first_min_pairs:
  "let n = min (length frames) (length texts);
       pairs = map (\<lambda>i. (frames ! i, texts ! i)) [0 ..< n];
       blocks = map caption_block (enumerate 1 (filter caption_kept pairs))
   in zip frames texts = pairs \<and>
      build_srt_entries frames texts = blocks \<and>
      build_srt frames texts = py_strip (py_join NL blocks) @ (if blocks \<noteq> [] then NL else []) \<and>
      build_srt frames texts = build_srt (take n frames) (take n texts) \<and>
      (\<forall>i < n. i < length frames \<and> i < length texts \<and>
         (caption_kept (frames ! i, texts ! i) \<longrightarrow>
            (\<exists>k. caption_block (k, frames ! i, texts ! i) \<in> set (build_srt_entries frames texts)))) \<and>
      (length frames = 5 \<and> length texts = 3 \<longrightarrow>
         build_srt_entries frames texts =
           map caption_block (enumerate 1 (filter caption_kept
             [(frames ! 0, texts ! 0), (frames ! 1, texts ! 1), (frames ! 2, texts ! 2)])))"
proof -
  define n where "n = min (length frames) (length texts)"
  define pairs where "pairs = map (\<lambda>i. (frames ! i, texts ! i)) [0 ..< n]"
  define blocks where "blocks = map caption_block (enumerate 1 (filter caption_kept pairs))"
  have z: "zip frames texts = pairs"
    unfolding pairs_def n_def by (rule zip_as_indexed_pairs)
  have en: "build_srt_entries frames texts = blocks"
    unfolding blocks_def z [symmetric] by (rule build_srt_entries_enumerate)
  have out: "build_srt frames texts = py_strip (py_join NL blocks) @ (if blocks \<noteq> [] then NL else [])"
    by (simp add: build_srt_def en)
  have zt: "zip (take n frames) (take n texts) = zip frames texts"
    unfolding n_def by (simp add: take_zip [symmetric])
  have tr: "build_srt frames texts = build_srt (take n frames) (take n texts)"
    by (simp add: build_srt_def build_srt_entries_def zt)
  have each: "\<forall>i < n. i < length frames \<and> i < length texts \<and>
         (caption_kept (frames ! i, texts ! i) \<longrightarrow>
            (\<exists>k. caption_block (k, frames ! i, texts ! i) \<in> set (build_srt_entries frames texts)))"
  proof (intro allI impI conjI)
    fix i assume i: "i < n"
    then show "i < length frames" and "i < length texts" by (simp_all add: n_def)
    assume k: "caption_kept (frames ! i, texts ! i)"
    from i have "(frames ! i, texts ! i) \<in> set pairs" by (simp add: pairs_def)
    from kept_pair_has_block [OF this k, of 1]
    show "\<exists>k. caption_block (k, frames ! i, texts ! i) \<in> set (build_srt_entries frames texts)"
      by (simp only: en blocks_def)
  qed
  have five: "length frames = 5 \<and> length texts = 3 \<longrightarrow>
         build_srt_entries frames texts =
           map caption_block (enumerate 1 (filter caption_kept
             [(frames ! 0, texts ! 0), (frames ! 1, texts ! 1), (frames ! 2, texts ! 2)]))"
  proof
    assume l: "length frames = 5 \<and> length texts = 3"
    then have "n = 3" by (simp add: n_def)
    then have "pairs = [(frames ! 0, texts ! 0), (frames ! 1, texts ! 1), (frames ! 2, texts ! 2)]"
      by (simp add: pairs_def upt_rec numeral_3_eq_3 numeral_2_eq_2)
    then show "build_srt_entries frames texts =
           map caption_block (enumerate 1 (filter caption_kept
             [(frames ! 0, texts ! 0), (frames ! 1, texts ! 1), (frames ! 2, texts ! 2)]))"
      by (simp only: en blocks_def)
  qed
  show ?thesis
    unfolding Let_def n_def [symmetric] pairs_def [symmetric] blocks_def [symmetric]
    by (intro conjI) (rule z en out tr each five)+
qed

lemma demo_three_blocks:
  "build_srt_entries demo_frames5 demo_texts3 =
     [srt_entry 1 ''00:00:00,000'' ''00:00:01,000'' ''ONE'',
      srt_entry 2 ''00:00:01,000'' ''00:00:02,000'' ''TWO'',
      srt_entry 3 ''00:00:02,000'' ''00:00:03,000'' ''THREE'']"
  by code_simp

theorem build_srt_processes_first_min_pairs_witness:
  "length demo_frames5 = 5 \<and> length demo_texts3 = 3 \<and>
   (2::nat) < min (length demo_frames5) (length demo_texts3) \<and>
   caption_kept (demo_frames5 ! 2, demo_texts3 ! 2) \<and>
   build_srt_entries demo_frames5 demo_texts3 =
     [srt_entry 1 ''00:00:00,000'' ''00:00:01,000'' ''ONE'',
      srt_entry 2 ''00:00:01,000'' ''00:00:02,000'' ''TWO'',
      srt_entry 3 ''00:00:02,000'' ''00:00:03,000'' ''THREE''] \<and>
   build_srt_entries demo_frames5 demo_texts3 =
     map caption_block (enumerate 1 (filter caption_kept
       [(demo_frames5 ! 0, demo_texts3 ! 0), (demo_frames5 ! 1, demo_texts3 ! 1),
        (demo_frames5 ! 2, demo_texts3 ! 2)])) \<and>
   (\<exists>k. caption_block (k, demo_frames5 ! 2, demo_texts3 ! 2)
          \<in> set (build_srt_entries demo_frames5 demo_texts3))"
proof -
  have l: "length demo_frames5 = 5 \<and> length demo_texts3 = 3"
    by (simp add: demo_frames5_def demo_texts3_def)
  have i: "(2::nat) < min (length demo_frames5) (length demo_texts3)"
    using l by simp
  have k: "caption_kept (demo_frames5 ! 2, demo_texts3 ! 2)"
    by code_simp
  note t = build_srt_processes_first_min_pairs [of demo_frames5 demo_texts3, unfolded Let_def]
  from t l have five: "build_srt_entries demo_frames5 demo_texts3 =
     map caption_block (enumerate 1 (filter caption_kept
       [(demo_frames5 ! 0, demo_texts3 ! 0), (demo_frames5 ! 1, demo_texts3 ! 1),
        (demo_frames5 ! 2, demo_texts3 ! 2)]))"
    by blast
  from t have "\<forall>i < min (length demo_frames5) (length demo_texts3).
      i < length demo_frames5 \<and> i < length demo_texts3 \<and>
      (caption_kept (demo_frames5 ! i, demo_texts3 ! i) \<longrightarrow>
         (\<exists>k. caption_block (k, demo_frames5 ! i, demo_texts3 ! i)
               \<in> set (build_srt_entries demo_frames5 demo_texts3)))"
    by blast
  from this [rule_format, OF i] k
  have ex: "\<exists>k. caption_block (k, demo_frames5 ! 2, demo_texts3 ! 2)
          \<in> set (build_srt_entries demo_frames5 demo_texts3)"
    by blast
  show ?thesis using l i k demo_three_blocks five ex by blast
qed


























subsection \<open>Serialization\<close>

lemma dropWhile_hd_id: "xs \<noteq> [] \<Longrightarrow> \<not> P (hd xs) \<Longrightarrow> dropWhile P xs = xs"
  by (cases xs) auto

lemma py_strip_fixed_ends:
  assumes "py_strip t = t" and "t \<noteq> []"
  shows "\<not> py_isspace (hd t)" and "\<not> py_isspace (last t)"
proof -
  define u where "u = dropWhile py_isspace t"
  define w where "w = dropWhile py_isspace (rev u)"
  have t: "t = rev w" using assms(1) by (simp add: py_strip_def u_def w_def)
  with assms(2) have w: "w \<noteq> []" by simp
  then have "\<not> py_isspace (hd w)" unfolding w_def by (rule hd_dropWhile)
  then show "\<not> py_isspace (last t)" using w by (simp add: t last_rev)
  from w have ru: "rev u \<noteq> []" unfolding w_def by auto
  then have un: "u \<noteq> []" by simp
  then have hu: "\<not> py_isspace (hd u)" unfolding u_def by (rule hd_dropWhile)
  have "length t \<le> length u"
    unfolding t w_def using length_dropWhile_le [of py_isspace "rev u"] by simp
  moreover have "length u \<le> length t" unfolding u_def by (rule length_dropWhile_le)
  ultimately have lu: "length u = length t" by simp
  have tk: "takeWhile py_isspace t @ u = t" unfolding u_def by (rule takeWhile_dropWhile_id)
  then have "length (takeWhile py_isspace t) + length u = length t"
    by (metis length_append)
  with lu have "takeWhile py_isspace t = []" by simp
  with tk have "u = t" by simp
  with hu show "\<not> py_isspace (hd t)" by simp
qed

lemma py_strip_tight: "tight_block b \<Longrightarrow> py_strip b = butlast b"
proof -
  assume tb: "tight_block b"
  then have b: "b \<noteq> []" and l: "last b = CHR 0x0A" and h: "\<not> py_isspace (hd b)"
    and p: "\<not> py_isspace (last (butlast b))" and len: "2 \<le> length b"
    by (auto simp: tight_block_def)
  have d1: "dropWhile py_isspace b = b" using b h by (rule dropWhile_hd_id)
  have bl: "butlast b \<noteq> []" using len by (cases b) (auto simp: Suc_le_eq)
  have "rev b = rev (butlast b @ [last b])" using b by simp
  then have rb: "rev b = CHR 0x0A # rev (butlast b)" using l by simp
  have sp: "py_isspace (CHR 0x0A)" by (simp add: py_isspace_def)
  have hd_rb: "hd (rev (butlast b)) = last (butlast b)" using bl by (simp add: hd_rev)
  have d2: "dropWhile py_isspace (rev (butlast b)) = rev (butlast b)"
    using bl p hd_rb by (intro dropWhile_hd_id) simp_all
  show ?thesis by (simp add: py_strip_def d1 rb sp d2)
qed


lemma tight_block_join:
  "bs \<noteq> [] \<Longrightarrow> \<forall>b \<in> set bs. tight_block b \<Longrightarrow> tight_block (py_join NL bs)"
proof (induction NL bs rule: py_join.induct)
  case 1
  then show ?case by simp
next
  case (2 x)
  then show ?case by simp
next
  case (3 x y ys)
  then have x: "tight_block x" and j: "tight_block (py_join NL (y # ys))" by simp_all
  define J where "J = py_join NL (y # ys)"
  from j have J2: "2 \<le> length J" and Jl: "last J = CHR 0x0A"
    and Jp: "\<not> py_isspace (last (butlast J))"
    by (simp_all add: J_def tight_block_def)
  from J2 have Jn: "J \<noteq> []" and Jb: "butlast J \<noteq> []" by (cases J; auto simp: Suc_le_eq)+
  from x have xn: "x \<noteq> []" and xh: "\<not> py_isspace (hd x)" by (auto simp: tight_block_def)
  have bl: "butlast (x @ NL @ J) = x @ NL @ butlast J"
    using Jn by (simp add: butlast_append NL_def)
  have "tight_block (x @ NL @ J)"
    unfolding tight_block_def bl using Jn Jb Jl Jp xn xh J2 by (simp add: NL_def)
  then show ?case by (simp add: J_def)
qed

lemma tight_block_caption:
  assumes "py_strip t = t" and "t \<noteq> []"
  shows "tight_block (caption_block (k, f, t))"
proof -
  have d: "dec_digits k \<noteq> []" by (rule dec_digits_nonempty)
  then have "hd (dec_digits k) \<in> set (dec_digits k)" by simp
  then have "is_digit (hd (dec_digits k))" by (rule dec_digits_all_digits)
  then have h: "\<not> py_isspace (hd (dec_digits k))" by (rule is_digit_not_space)
  have l: "\<not> py_isspace (last t)" using assms by (rule py_strip_fixed_ends)
  show ?thesis
    using d h l assms(2)
    by (simp add: tight_block_def caption_block_def srt_entry_def py_str_int_def NL_def
        butlast_append)
qed

lemma tight_block_restore: "tight_block b \<Longrightarrow> py_strip b @ NL = b"
proof -
  assume tb: "tight_block b"
  then have "b \<noteq> []" and "last b = CHR 0x0A" by (auto simp: tight_block_def)
  then have "butlast b @ NL = b" by (simp add: NL_def) (metis append_butlast_last_id)
  then show ?thesis using tb by (simp add: py_strip_tight)
qed

lemma kept_blocks_tight:
  assumes "\<forall>t \<in> set texts. py_strip t = t"
  shows "list_all tight_block
           (map caption_block (enumerate n (filter caption_kept (zip frames texts))))"
proof -
  have "tight_block (caption_block q)"
    if q: "q \<in> set (enumerate n (filter caption_kept (zip frames texts)))" for q
  proof -
    obtain k f t where qq: "q = (k, f, t)" by (cases q) auto
    from q have "snd q \<in> snd ` set (enumerate n (filter caption_kept (zip frames texts)))"
      by (rule imageI)
    then have "(f, t) \<in> set (map snd (enumerate n (filter caption_kept (zip frames texts))))"
      by (simp only: set_map qq snd_conv)
    then have m: "(f, t) \<in> set (filter caption_kept (zip frames texts))"
      by (simp only: map_snd_enumerate)
    then have "t \<in> set texts" by (auto dest: set_zip_rightD)
    with assms have s: "py_strip t = t" by blast
    from m have "t \<noteq> []" by (simp add: caption_kept_def)
    with s show ?thesis unfolding qq by (rule tight_block_caption)
  qed
  then show ?thesis by (simp add: list_all_iff)
qed

text \<open>
  Claim C5. When every text is trimmed (\<open>strip\<close> leaves it unchanged, as it leaves
  the normalised texts of the recognizer), the result of \<open>build_srt\<close> is the emitted
  blocks in order, joined by one line feed. Each block is
  \<open>number LF start --> end LF text LF\<close>; it starts with a non-blank character and ends
  with a single line feed, so two consecutive blocks are separated by exactly one
  empty line. The result is the empty string when nothing is emitted, and ends with
  a single line feed otherwise.
\<close>

theorem build_srt_serialization:
  assumes "\<forall>t \<in> set texts. py_strip t = t"
  shows "let kept = filter caption_kept (zip frames texts);
             blocks = map caption_block (enumerate 1 kept)
         in build_srt frames texts = py_join NL blocks \<and>
            (\<forall>q. caption_block q =
                   py_str_int (int (fst q)) @ NL @
                   seconds_to_srt_time (frame_start (fst (snd q))) @ '' --> '' @
                   seconds_to_srt_time (frame_end (fst (snd q))) @ NL @ snd (snd q) @ NL) \<and>
            list_all tight_block blocks \<and>
            (kept = [] \<longrightarrow> build_srt frames texts = []) \<and>
            (kept \<noteq> [] \<longrightarrow> tight_block (build_srt frames texts))"
proof -
  define kept where "kept = filter caption_kept (zip frames texts)"
  define blocks where "blocks = map caption_block (enumerate 1 kept)"
  have en: "build_srt_entries frames texts = blocks"
    unfolding blocks_def kept_def by (rule build_srt_entries_enumerate)
  have tight: "list_all tight_block blocks"
    unfolding blocks_def kept_def using assms by (rule kept_blocks_tight)
  have bk: "blocks = [] \<longleftrightarrow> kept = []" by (cases kept) (simp_all add: blocks_def)
  have shape: "\<forall>q. caption_block q =
                   py_str_int (int (fst q)) @ NL @
                   seconds_to_srt_time (frame_start (fst (snd q))) @ '' --> '' @
                   seconds_to_srt_time (frame_end (fst (snd q))) @ NL @ snd (snd q) @ NL"
    by (simp add: caption_block_def srt_entry_def)
  have eq: "build_srt frames texts = py_join NL blocks"
  proof (cases "blocks = []")
    case True
    then show ?thesis by (simp add: build_srt_def en py_strip_def)
  next
    case False
    with tight have "tight_block (py_join NL blocks)"
      by (intro tight_block_join) (simp_all add: list_all_iff)
    then have "py_strip (py_join NL blocks) @ NL = py_join NL blocks"
      by (rule tight_block_restore)
    with False show ?thesis by (simp add: build_srt_def en)
  qed
  have empty: "kept = [] \<longrightarrow> build_srt frames texts = []"
  proof
    assume "kept = []"
    with bk have "blocks = []" by simp
    then show "build_srt frames texts = []" by (simp add: eq)
  qed
  have nonempty: "kept \<noteq> [] \<longrightarrow> tight_block (build_srt frames texts)"
  proof
    assume "kept \<noteq> []"
    with bk have "blocks \<noteq> []" by simp
    with tight have "tight_block (py_join NL blocks)"
      by (intro tight_block_join) (simp_all add: list_all_iff)
    then show "tight_block (build_srt frames texts)" by (simp only: eq)
  qed
  show ?thesis
    unfolding Let_def kept_def [symmetric] blocks_def [symmetric]
    by (intro conjI) (rule eq shape tight empty nonempty)+
qed

theorem build_srt_serialization_witness:
  "list_all (\<lambda>t. py_strip t = t) demo_texts \<and>
   filter caption_kept (zip demo_frames demo_texts) \<noteq> [] \<and>
   build_srt demo_frames demo_texts =
     py_join NL [srt_entry 1 ''00:00:00,000'' ''00:00:01,500'' ''HELLO'',
                 srt_entry 2 ''00:00:03,000'' ''00:00:04,000'' ''BYE''] \<and>
   tight_block (build_srt demo_frames demo_texts)"
proof -
  have h: "\<forall>t \<in> set demo_texts. py_strip t = t"
    by (simp add: demo_texts_def py_strip_def py_isspace_def)
  have "length (filter caption_kept (zip demo_frames demo_texts)) = 2"
    using build_srt_entries_enumerate [of demo_frames demo_texts]
    by (simp add: demo_entries) (metis length_map length_enumerate length_Cons list.size(3) One_nat_def Suc_1)
  then have k: "filter caption_kept (zip demo_frames demo_texts) \<noteq> []" by auto
  have b: "map caption_block (enumerate 1 (filter caption_kept (zip demo_frames demo_texts))) =
     [srt_entry 1 ''00:00:00,000'' ''00:00:01,500'' ''HELLO'',
      srt_entry 2 ''00:00:03,000'' ''00:00:04,000'' ''BYE'']"
    using build_srt_entries_enumerate [of demo_frames demo_texts] by (simp add: demo_entries)
  from build_srt_serialization [OF h, of demo_frames]
  have e: "build_srt demo_frames demo_texts =
             py_join NL (map caption_block
               (enumerate 1 (filter caption_kept (zip demo_frames demo_texts))))"
    and t: "filter caption_kept (zip demo_frames demo_texts) \<noteq> [] \<longrightarrow>
            tight_block (build_srt demo_frames demo_texts)"
    unfolding Let_def by blast+
  have e': "build_srt demo_frames demo_texts =
     py_join NL [srt_entry 1 ''00:00:00,000'' ''00:00:01,500'' ''HELLO'',
                 srt_entry 2 ''00:00:03,000'' ''00:00:04,000'' ''BYE'']"
    using e unfolding b .
  have t': "tight_block (build_srt demo_frames demo_texts)" using t k by blast
  have h': "list_all (\<lambda>t. py_strip t = t) demo_texts" using h by (simp add: list_all_iff)
  show ?thesis using h' k e' t' by blast
qed

subsection \<open>Language resolution\<close>

lemma py_lower_char_space: "py_isspace c \<Longrightarrow> py_lower_char c = c"
  by (auto simp: py_isspace_def py_lower_char_def Let_def)

lemma py_strip_all_space: "list_all py_isspace s \<Longrightarrow> py_strip s = []"
proof -
  assume "list_all py_isspace s"
  then have d: "dropWhile py_isspace s = []" by (induction s) simp_all
  show ?thesis unfolding py_strip_def d by simp
qed

lemma py_lower_all_space: "list_all py_isspace s \<Longrightarrow> py_lower s = s"
  by (induction s) (simp_all add: py_lower_def py_lower_char_space)

lemma aliases_empty: "aliases [] = None"
  by (simp add: aliases_def)

lemma normalize_language_blank:
  "lang \<noteq> [] \<Longrightarrow> list_all py_isspace lang \<Longrightarrow> normalize_language (Some lang) = []"
  by (simp add: normalize_language_def py_lower_all_space py_strip_all_space aliases_empty)

lemma run_command_events:
  "fst (run_command w cmd check) = [Log (''[cmd] '' @ py_join '' '' cmd), Subprocess cmd]"
  by (simp add: run_command_def io_bind_def io_return_def io_raise_def log_msg_def emit_def
      split: proc.splits)

lemma list_tesseract_languages_no_empty:
  assumes "list_tesseract_languages w = (evs, Inr available)"
  shows "[] \<notin> set available"
proof -
  obtain e r where rc: "run_command w [''tesseract'', ''--list-langs''] True = (e, r)"
    by (cases "run_command w [''tesseract'', ''--list-langs''] True")
  show ?thesis
  proof (cases r)
    case (Inl err)
    with assms rc show ?thesis
      by (cases err) (simp_all add: list_tesseract_languages_def)
  next
    case (Inr res)
    obtain rcode out err where res: "res = (rcode, out, err)" by (cases res)
    from assms rc Inr res show ?thesis
      by (auto simp: list_tesseract_languages_def Let_def split: if_splits)
  qed
qed

lemma resolve_language_cases:
  assumes "list_tesseract_languages w = (evs, Inr available)"
  shows "resolve_language w requested =
     (if normalize_language requested \<in> set available
      then (evs, Inr (normalize_language requested, available))
      else if DEFAULT_LANG \<in> set available
      then (evs @ [warn_not_installed (normalize_language requested)],
            Inr (DEFAULT_LANG, available))
      else (evs @ [warn_not_installed (normalize_language requested)],
            Inl (JobError ''tesseract language data missing (eng not installed)'')))"
  using assms
  by (simp add: resolve_language_def Let_def io_bind_def io_return_def io_raise_def
      log_msg_def emit_def warn_not_installed_def)

lemma demo_languages:
  "list_tesseract_languages demo_world =
     ([Log ''[cmd] tesseract --list-langs'', Subprocess [''tesseract'', ''--list-langs'']],
      Inr [''eng'', ''jpn''])"
  by code_simp

lemma demo_normalize: "normalize_language (Some '' Ja '') = ''jpn''"
  "normalize_language (Some ''fra'') = ''fra''"
  by code_simp+

text \<open>
  Claim C6. When the query of the engine returns the installed languages
  \<open>available\<close>: \<open>resolve_language\<close> returns the normalised tag, with no warning,
  exactly when that tag is installed (so an installed tag that normalisation leaves
  unchanged is returned as it is); when the tag is not installed it logs the warning
  and returns the default tag \<open>eng\<close> if that one is installed; and it raises the fatal
  \<open>JobError\<close> exactly when neither the normalised tag nor the default tag is
  installed.
\<close>

theorem resolve_language_fallback:
  assumes "list_tesseract_languages w = (evs, Inr available)"
  shows "let normalized = normalize_language requested;
             r = resolve_language w requested
         in (normalized \<in> set available \<longrightarrow> r = (evs, Inr (normalized, available))) \<and>
            (normalized \<notin> set available \<and> DEFAULT_LANG \<in> set available \<longrightarrow>
               r = (evs @ [warn_not_installed normalized], Inr (DEFAULT_LANG, available))) \<and>
            (normalized \<notin> set available \<and> DEFAULT_LANG \<notin> set available \<longrightarrow>
               r = (evs @ [warn_not_installed normalized],
                    Inl (JobError ''tesseract language data missing (eng not installed)''))) \<and>
            ((\<exists>a. snd r = Inr (normalized, a)) \<longleftrightarrow> normalized \<in> set available) \<and>
            ((\<exists>e. snd r = Inl e) \<longleftrightarrow>
               normalized \<notin> set available \<and> DEFAULT_LANG \<notin> set available) \<and>
            DEFAULT_LANG = ''eng'' \<and>
            (\<forall>tag. tag \<in> set available \<and> normalize_language (Some tag) = tag \<longrightarrow>
               resolve_language w (Some tag) = (evs, Inr (tag, available)))"
proof -
  note c = resolve_language_cases [OF assms]
  have idem: "\<forall>tag. tag \<in> set available \<and> normalize_language (Some tag) = tag \<longrightarrow>
               resolve_language w (Some tag) = (evs, Inr (tag, available))"
    by (simp add: c)
  show ?thesis
    unfolding Let_def
    apply (intro conjI)
          apply (simp add: c)
         apply (simp add: c)
        apply (simp add: c)
       apply (auto simp: c)[1]
      apply (auto simp: c)[1]
     apply (simp add: DEFAULT_LANG_def)
    apply (rule idem)
    done
qed

theorem resolve_language_fallback_witness:
  "list_tesseract_languages demo_world =
     ([Log ''[cmd] tesseract --list-langs'', Subprocess [''tesseract'', ''--list-langs'']],
      Inr [''eng'', ''jpn'']) \<and>
   resolve_language demo_world (Some '' Ja '') =
     ([Log ''[cmd] tesseract --list-langs'', Subprocess [''tesseract'', ''--list-langs'']],
      Inr (''jpn'', [''eng'', ''jpn''])) \<and>
   resolve_language demo_world (Some ''fra'') =
     ([Log ''[cmd] tesseract --list-langs'', Subprocess [''tesseract'', ''--list-langs''],
       warn_not_installed ''fra''],
      Inr (''eng'', [''eng'', ''jpn'']))"
proof -
  let ?evs = "[Log ''[cmd] tesseract --list-langs'', Subprocess [''tesseract'', ''--list-langs'']]"
  have a: "resolve_language demo_world (Some '' Ja '') = (?evs, Inr (''jpn'', [''eng'', ''jpn'']))"
    using resolve_language_fallback [OF demo_languages, of "Some '' Ja ''"]
    by (simp add: Let_def demo_normalize)
  have b: "resolve_language demo_world (Some ''fra'') =
             (?evs @ [warn_not_installed ''fra''], Inr (''eng'', [''eng'', ''jpn'']))"
    using resolve_language_fallback [OF demo_languages, of "Some ''fra''"]
    by (simp add: Let_def demo_normalize)
  show ?thesis using demo_languages a b by simp
qed

text \<open>
  Claim C10. A requested tag that is not empty and holds only whitespace is
  normalised to the empty string, not to the default tag (to which a missing tag
  goes directly). The list of installed languages never holds the empty string, so
  resolution logs the warning for the tag \<open>''\<close> and falls back to the default tag,
  which is returned when it is installed.
\<close>

theorem whitespace_language_falls_back:
  assumes "lang \<noteq> []" and "list_all py_isspace lang"
  shows "normalize_language (Some lang) = [] \<and>
         normalize_language None = DEFAULT_LANG \<and> DEFAULT_LANG \<noteq> [] \<and>
         (\<forall>evs available.
            list_tesseract_languages w = (evs, Inr available) \<longrightarrow>
              [] \<notin> set available \<and>
              resolve_language w (Some lang) =
                (evs @ [warn_not_installed []],
                 if DEFAULT_LANG \<in> set available then Inr (DEFAULT_LANG, available)
                 else Inl (JobError ''tesseract language data missing (eng not installed)'')))"
proof (intro conjI allI impI)
  show n: "normalize_language (Some lang) = []"
    using assms by (rule normalize_language_blank)
  show "normalize_language None = DEFAULT_LANG" by (simp add: normalize_language_def)
  show "DEFAULT_LANG \<noteq> []" by (simp add: DEFAULT_LANG_def)
  fix evs available
  assume l: "list_tesseract_languages w = (evs, Inr available)"
  then show e: "[] \<notin> set available" by (rule list_tesseract_languages_no_empty)
  show "resolve_language w (Some lang) =
          (evs @ [warn_not_installed []],
           if DEFAULT_LANG \<in> set available then Inr (DEFAULT_LANG, available)
           else Inl (JobError ''tesseract language data missing (eng not installed)''))"
    using e by (simp add: resolve_language_cases [OF l] n)
qed

theorem whitespace_language_falls_back_witness:
  "'' '' \<noteq> [] \<and> list_all py_isspace '' '' \<and>
   normalize_language (Some '' '') = [] \<and>
   resolve_language demo_world (Some '' '') =
     ([Log ''[cmd] tesseract --list-langs'', Subprocess [''tesseract'', ''--list-langs''],
       warn_not_installed []],
      Inr (''eng'', [''eng'', ''jpn'']))"
proof -
  have a: "'' '' \<noteq> []" by simp
  have b: "list_all py_isspace '' ''" by (simp add: py_isspace_def)
  from whitespace_language_falls_back [OF a b, of demo_world] demo_languages
  show ?thesis using a b by (simp add: DEFAULT_LANG_def)
qed

subsection \<open>The job pipeline\<close>

lemma ocr_image_exited:
  "subprocess_run w (ocr_command image_path language) = Exited rc out err \<Longrightarrow>
   ocr_image w image_path language =
     ([Log (''[cmd] '' @ py_join '' '' (ocr_command image_path language)),
       Subprocess (ocr_command image_path language)],
      if rc \<noteq> 0 then Inl (CalledProcessError (ocr_command image_path language) err)
      else Inr (py_join '' '' (py_split (py_strip out))))"
  by (simp add: ocr_image_def ocr_command_def run_command_def io_bind_def io_return_def
      io_raise_def log_msg_def emit_def)

lemma recognize_step:
  assumes "subprocess_run w (ocr_command image_path language) = Exited rc out err"
  shows "recognize_loop w language (image_path # rest) texts =
           (frame_events w language image_path @
              fst (recognize_loop w language rest (texts @ [frame_text w language image_path])),
            snd (recognize_loop w language rest (texts @ [frame_text w language image_path])))"
proof (cases "rc = 0")
  case True
  then show ?thesis
    using assms
    by (simp add: ocr_image_exited [OF assms] io_catch_called_process_error_def io_bind_def
        frame_events_def frame_text_def split: prod.splits)
next
  case False
  then show ?thesis
    using assms
    by (simp add: ocr_image_exited [OF assms] io_catch_called_process_error_def io_bind_def
        io_return_def log_msg_def emit_def frame_events_def frame_text_def split: prod.splits)
qed

lemma recognize_loop_all:
  "\<forall>image \<in> set images. subprocess_run w (ocr_command image language) \<noteq> NotFound \<Longrightarrow>
   recognize_loop w language images texts =
     (concat (map (frame_events w language) images),
      Inr (texts @ map (frame_text w language) images))"
proof (induction images arbitrary: texts)
  case Nil
  then show ?case by (simp add: io_return_def)
next
  case (Cons image images)
  then obtain rc out err where
    ex: "subprocess_run w (ocr_command image language) = Exited rc out err"
    by (cases "subprocess_run w (ocr_command image language)") auto
  from Cons.prems have rest: "\<forall>i \<in> set images. subprocess_run w (ocr_command i language) \<noteq> NotFound"
    by simp
  show ?case
    unfolding recognize_step [OF ex] Cons.IH [OF rest] by simp
qed

text \<open>
  Claim C7. When the engine runs on every image (its executable is present), the
  recognition loop never raises: it returns one text for each image, in order, and an
  image on which the engine exits with a non-zero code gets the empty text at its
  position while the images after it are still processed; the failure is logged with
  the path of the image and the stripped standard error of the engine.
\<close>

theorem recognition_failure_is_empty_text:
  assumes "\<forall>image \<in> set images. subprocess_run w (ocr_command image language) \<noteq> NotFound"
  shows "recognize_loop w language images texts =
           (concat (map (frame_events w language) images),
            Inr (texts @ map (frame_text w language) images)) \<and>
         (\<forall>i < length images. \<forall>rc out err.
            subprocess_run w (ocr_command (images ! i) language) = Exited rc out err \<and> rc \<noteq> 0 \<longrightarrow>
              (texts @ map (frame_text w language) images) ! (length texts + i) = [] \<and>
              Log (''[error] OCR failed on '' @ images ! i @ '': '' @ py_strip err)
                \<in> set (fst (recognize_loop w language images texts)))"
proof (intro conjI allI impI)
  show all: "recognize_loop w language images texts =
           (concat (map (frame_events w language) images),
            Inr (texts @ map (frame_text w language) images))"
    using assms by (rule recognize_loop_all)
  fix i rc out err
  assume i: "i < length images"
    and f: "subprocess_run w (ocr_command (images ! i) language) = Exited rc out err \<and> rc \<noteq> 0"
  from f have ft: "frame_text w language (images ! i) = []"
    by (simp add: frame_text_def)
  from i show "(texts @ map (frame_text w language) images) ! (length texts + i) = []"
    by (simp add: nth_append ft)
  from f have "Log (''[error] OCR failed on '' @ images ! i @ '': '' @ py_strip err)
                 \<in> set (frame_events w language (images ! i))"
    by (simp add: frame_events_def)
  moreover from i have "images ! i \<in> set images" by simp
  ultimately show "Log (''[error] OCR failed on '' @ images ! i @ '': '' @ py_strip err)
                \<in> set (fst (recognize_loop w language images texts))"
    unfolding all by auto
qed

lemma demo_ocr:
  "subprocess_run demo_world (ocr_command ''/tmp/t/frames/subtitle-000001.png'' ''eng'') =
     Exited 0 ('' HELLO   THERE '' @ NL) []"
  "subprocess_run demo_world (ocr_command ''/tmp/t/frames/subtitle-000002.png'' ''eng'') =
     Exited 1 [] (''boom'' @ NL)"
  by (simp_all add: demo_world_def demo_run_def ocr_command_def)

lemma demo_frame_text:
  "frame_text demo_world ''eng'' ''/tmp/t/frames/subtitle-000001.png'' = ''HELLO THERE''"
  "frame_text demo_world ''eng'' ''/tmp/t/frames/subtitle-000002.png'' = []"
   apply (simp add: frame_text_def demo_ocr)
   apply code_simp
  apply (simp add: frame_text_def demo_ocr)
  done

theorem recognition_failure_is_empty_text_witness:
  "list_all (\<lambda>image. subprocess_run demo_world (ocr_command image ''eng'') \<noteq> NotFound)
     [''/tmp/t/frames/subtitle-000002.png'', ''/tmp/t/frames/subtitle-000001.png''] \<and>
   subprocess_run demo_world (ocr_command ''/tmp/t/frames/subtitle-000002.png'' ''eng'') =
     Exited 1 [] (''boom'' @ NL) \<and>
   snd (recognize_loop demo_world ''eng''
          [''/tmp/t/frames/subtitle-000002.png'', ''/tmp/t/frames/subtitle-000001.png''] []) =
     Inr [[], ''HELLO THERE''] \<and>
   Log (''[error] OCR failed on /tmp/t/frames/subtitle-000002.png: '' @ py_strip (''boom'' @ NL))
     \<in> set (fst (recognize_loop demo_world ''eng''
          [''/tmp/t/frames/subtitle-000002.png'', ''/tmp/t/frames/subtitle-000001.png''] []))"
proof -
  let ?images = "[''/tmp/t/frames/subtitle-000002.png'', ''/tmp/t/frames/subtitle-000001.png'']"
  have h: "\<forall>image \<in> set ?images. subprocess_run demo_world (ocr_command image ''eng'') \<noteq> NotFound"
    by (simp add: demo_ocr)
  note t = recognition_failure_is_empty_text [OF h, of "[]"]
  from t have r: "snd (recognize_loop demo_world ''eng'' ?images []) = Inr [[], ''HELLO THERE'']"
    by (simp add: demo_frame_text)
  have i0: "(0::nat) < length ?images" by simp
  have f0: "subprocess_run demo_world (ocr_command (?images ! 0) ''eng'') =
              Exited 1 [] (''boom'' @ NL) \<and> (1::int) \<noteq> 0"
    using demo_ocr(2) by simp
  from t [THEN conjunct2, rule_format, OF i0 f0]
  have l: "Log (''[error] OCR failed on /tmp/t/frames/subtitle-000002.png: '' @ py_strip (''boom'' @ NL))
     \<in> set (fst (recognize_loop demo_world ''eng'' ?images []))"
    by (simp del: recognize_loop.simps)
  have h': "list_all (\<lambda>image. subprocess_run demo_world (ocr_command image ''eng'') \<noteq> NotFound)
              ?images"
    using h by (simp add: list_all_iff)
  show ?thesis using h' r l demo_ocr(2) by blast
qed

lemma demo_process_job:
  "snd (process_job demo_world demo_job False) = Inr 0"
  by code_simp

lemma process_job_unsupported:
  "job_type_of job \<notin> SUPPORTED_TYPES \<Longrightarrow>
   process_job w job dry_run = ([warn_unsupported (job_type_of job)], Inr 2)"
  by (simp add: process_job_def job_type_of_def Let_def io_bind_def io_return_def log_msg_def
      emit_def warn_unsupported_def)

text \<open>
  Claim C8. For a job whose type, case-folded and trimmed, is neither \<open>vobsub\<close> nor
  \<open>pgs\<close>, \<open>process_job\<close> returns 2 and its only event is the warning line: no path
  check, no language query, no extraction, no access to the file system. The code 2
  differs from the code 0 of success and from the status 1 in which every exception
  ends.
\<close>

theorem unsupported_type_needs_review:
  "job_type_of job \<notin> SUPPORTED_TYPES \<longrightarrow>
     process_job w job dry_run = ([warn_unsupported (job_type_of job)], Inr 2) \<and>
     exit_status (process_job w job dry_run) = 2 \<and>
     exit_status (process_job w job dry_run) \<noteq> 0 \<and>
     (\<forall>evs e. exit_status (evs, Inl e) = 1 \<and>
              exit_status (evs, Inl e) \<noteq> exit_status (process_job w job dry_run))"
  by (simp add: process_job_unsupported exit_status_def)

lemma demo_srt_type: "job_type_of (demo_job(''type'' \<mapsto> '' SRT'')) = ''srt''"
  by code_simp

theorem unsupported_type_needs_review_witness:
  "job_type_of (demo_job(''type'' \<mapsto> '' SRT'')) \<notin> SUPPORTED_TYPES \<and>
   process_job demo_world (demo_job(''type'' \<mapsto> '' SRT'')) False =
     ([warn_unsupported ''srt''], Inr 2)"
proof -
  have h: "job_type_of (demo_job(''type'' \<mapsto> '' SRT'')) \<notin> SUPPORTED_TYPES"
    by (simp add: demo_srt_type SUPPORTED_TYPES_def)
  from unsupported_type_needs_review [of "demo_job(''type'' \<mapsto> '' SRT'')" demo_world False] h
  show ?thesis by (simp add: demo_srt_type)
qed

lemma quiet_bind:
  "list_all (\<lambda>e. \<not> extraction_event e) (fst m) \<Longrightarrow>
   (\<And>x. list_all (\<lambda>e. \<not> extraction_event e) (fst (f x))) \<Longrightarrow>
   list_all (\<lambda>e. \<not> extraction_event e) (fst (io_bind m f))"
proof -
  assume m: "list_all (\<lambda>e. \<not> extraction_event e) (fst m)"
    and f: "\<And>x. list_all (\<lambda>e. \<not> extraction_event e) (fst (f x))"
  obtain evs r where mr: "m = (evs, r)" by (cases m)
  show ?thesis
  proof (cases r)
    case (Inl e)
    with m mr show ?thesis by (simp add: io_bind_def)
  next
    case (Inr x)
    obtain evs' r' where fx: "f x = (evs', r')" by (cases "f x")
    from f [of x] fx have "list_all (\<lambda>e. \<not> extraction_event e) evs'" by simp
    with m mr Inr fx show ?thesis by (simp add: io_bind_def)
  qed
qed

lemma quiet_return: "list_all (\<lambda>e. \<not> extraction_event e) (fst (io_return x))"
  by (simp add: io_return_def)

lemma quiet_raise: "list_all (\<lambda>e. \<not> extraction_event e) (fst (io_raise x))"
  by (simp add: io_raise_def)

lemma quiet_log: "list_all (\<lambda>e. \<not> extraction_event e) (fst (log_msg m))"
  by (simp add: log_msg_def emit_def)

lemma quiet_ensure_readable:
  "list_all (\<lambda>e. \<not> extraction_event e) (fst (ensure_readable w path))"
  by (simp add: ensure_readable_def io_bind_def io_return_def io_raise_def emit_def)

lemma quiet_ensure_writable:
  "list_all (\<lambda>e. \<not> extraction_event e) (fst (ensure_writable w path))"
  by (simp add: ensure_writable_def Let_def io_bind_def io_return_def io_raise_def emit_def)

lemma quiet_job_input_path:
  "list_all (\<lambda>e. \<not> extraction_event e) (fst (job_input_path w job job_type))"
  unfolding job_input_path_def Let_def
  by (auto split: option.splits intro!: quiet_bind quiet_return quiet_raise quiet_ensure_readable)

lemma quiet_list_tesseract_languages:
  "list_all (\<lambda>e. \<not> extraction_event e) (fst (list_tesseract_languages w))"
proof -
  obtain e r where rc: "run_command w [''tesseract'', ''--list-langs''] True = (e, r)"
    by (cases "run_command w [''tesseract'', ''--list-langs''] True")
  from run_command_events [of w "[''tesseract'', ''--list-langs'']" True] rc
  have e: "e = [Log (''[cmd] '' @ py_join '' '' [''tesseract'', ''--list-langs'']),
                Subprocess [''tesseract'', ''--list-langs'']]" by simp
  have q: "list_all (\<lambda>e. \<not> extraction_event e) e" unfolding e by simp
  show ?thesis
    using q by (simp add: list_tesseract_languages_def rc Let_def split: sum.splits error.splits prod.splits)
qed

lemma quiet_resolve_language:
  "list_all (\<lambda>e. \<not> extraction_event e) (fst (resolve_language w requested))"
  unfolding resolve_language_def Let_def
  by (auto intro!: quiet_bind quiet_return quiet_raise quiet_log quiet_list_tesseract_languages)

lemma quiet_load_frames:
  "list_all (\<lambda>e. \<not> extraction_event e) (fst (load_frames w input_path))"
  unfolding load_frames_def
  by (rule quiet_bind)
     (auto simp: run_command_events split: option.splits intro!: quiet_return quiet_raise)

lemma quiet_process_job_dry_run:
  "list_all (\<lambda>e. \<not> extraction_event e) (fst (process_job w job True))"
  unfolding process_job_def Let_def
  by (auto split: option.splits
      intro!: quiet_bind quiet_return quiet_raise quiet_log quiet_ensure_writable
        quiet_job_input_path quiet_resolve_language quiet_load_frames)

text \<open>
  Claim C9. In dry-run mode, when the job type is supported, the output path is
  given and its directory is writable, the input paths are readable, the language
  resolves and the timing probe returns a non-empty list of frames, \<open>process_job\<close>
  returns 0 right after the timing probe: its events are those of these steps and the
  two info lines, and none of them is an event of image extraction, of recognition
  or of temporary or output storage.
\<close>

theorem dry_run_stops_after_timing:
  assumes "job_type_of job \<in> SUPPORTED_TYPES"
    and "job ''srt_output'' = Some srt_output" and "srt_output \<noteq> []"
    and "ensure_writable w srt_output = (ev1, Inr ())"
    and "job_input_path w job (job_type_of job) = (ev2, Inr input_path)"
    and "resolve_language w (job ''language'') = (ev3, Inr (language, available))"
    and "load_frames w input_path = (ev4, Inr frames)" and "frames \<noteq> []"
  shows "process_job w job True =
           (ev1 @ ev2 @ ev3 @ [Log (''[info] Using tesseract language: '' @ language)] @ ev4 @
            [Log ''[info] Dry run successful.''], Inr 0) \<and>
         exit_status (process_job w job True) = 0 \<and>
         list_all (\<lambda>e. \<not> extraction_event e) (fst (process_job w job True))"
proof -
  have jt: "py_strip (py_lower (case job ''type'' of None \<Rightarrow> [] | Some t \<Rightarrow> t)) = job_type_of job"
    by (simp add: job_type_of_def)
  have r: "process_job w job True =
           (ev1 @ ev2 @ ev3 @ [Log (''[info] Using tesseract language: '' @ language)] @ ev4 @
            [Log ''[info] Dry run successful.''], Inr 0)"
    unfolding process_job_def Let_def jt
    using assms
    by (simp add: io_bind_def io_return_def log_msg_def emit_def)
  show ?thesis
    using r quiet_process_job_dry_run [of w job] by (simp add: exit_status_def)
qed

lemma demo_dry_run_steps:
  "job_type_of demo_job = ''vobsub''"
  "demo_job ''srt_output'' = Some ''out.srt''"
  "demo_job ''language'' = Some ''en''"
  "ensure_writable demo_world ''out.srt'' = ([Isdir ''.'', AccessW ''.''], Inr ())"
  "job_input_path demo_world demo_job ''vobsub'' =
     ([Isfile ''a.idx'', AccessR ''a.idx'', Isfile ''a.sub'', AccessR ''a.sub''], Inr ''a.idx'')"
  "resolve_language demo_world (Some ''en'') =
     ([Log ''[cmd] tesseract --list-langs'', Subprocess [''tesseract'', ''--list-langs'']],
      Inr (''eng'', [''eng'', ''jpn'']))"
  "load_frames demo_world ''a.idx'' =
     ([Log ''[cmd] ffprobe -v error -select_streams s:0 -show_entries frame=pkt_pts_time,pkt_duration_time -of json a.idx'',
       Subprocess [''ffprobe'', ''-v'', ''error'', ''-select_streams'', ''s:0'', ''-show_entries'',
         ''frame=pkt_pts_time,pkt_duration_time'', ''-of'', ''json'', ''a.idx'']],
      Inr [\<lparr>frame_start = 0, frame_end = 3 / 2\<rparr>, \<lparr>frame_start = 2, frame_end = 3\<rparr>,
           \<lparr>frame_start = 4, frame_end = 4\<rparr>])"
  by code_simp+

theorem dry_run_stops_after_timing_witness:
  "job_type_of demo_job \<in> SUPPORTED_TYPES \<and>
   demo_job ''srt_output'' = Some ''out.srt'' \<and>
   snd (ensure_writable demo_world ''out.srt'') = Inr () \<and>
   snd (job_input_path demo_world demo_job (job_type_of demo_job)) = Inr ''a.idx'' \<and>
   snd (resolve_language demo_world (demo_job ''language'')) = Inr (''eng'', [''eng'', ''jpn'']) \<and>
   length (projr (snd (load_frames demo_world ''a.idx''))) = 3 \<and>
   snd (process_job demo_world demo_job True) = Inr 0 \<and>
   last (fst (process_job demo_world demo_job True)) = Log ''[info] Dry run successful.'' \<and>
   list_all (\<lambda>e. \<not> extraction_event e) (fst (process_job demo_world demo_job True))"
proof -
  have a1: "job_type_of demo_job \<in> SUPPORTED_TYPES"
    by (simp add: demo_dry_run_steps SUPPORTED_TYPES_def)
  have a3: "''out.srt'' \<noteq> []" by simp
  have a5: "job_input_path demo_world demo_job (job_type_of demo_job) =
     ([Isfile ''a.idx'', AccessR ''a.idx'', Isfile ''a.sub'', AccessR ''a.sub''], Inr ''a.idx'')"
    by (simp only: demo_dry_run_steps)
  have a6: "resolve_language demo_world (demo_job ''language'') =
     ([Log ''[cmd] tesseract --list-langs'', Subprocess [''tesseract'', ''--list-langs'']],
      Inr (''eng'', [''eng'', ''jpn'']))"
    by (simp only: demo_dry_run_steps)
  have a8: "[\<lparr>frame_start = 0, frame_end = 3 / 2\<rparr>, \<lparr>frame_start = 2, frame_end = 3\<rparr>,
           \<lparr>frame_start = 4, frame_end = 4\<rparr>] \<noteq> ([] :: FrameInfo list)" by simp
  note t = dry_run_stops_after_timing [OF a1 demo_dry_run_steps(2) a3 demo_dry_run_steps(4) a5 a6
      demo_dry_run_steps(7) a8]
  from t have r: "snd (process_job demo_world demo_job True) = Inr 0" by simp
  from t have l: "last (fst (process_job demo_world demo_job True)) = Log ''[info] Dry run successful.''"
    by simp
  from t have q: "list_all (\<lambda>e. \<not> extraction_event e) (fst (process_job demo_world demo_job True))"
    by blast
  show ?thesis
    using a1 r l q by (simp add: demo_dry_run_steps a5 a6)
qed

end
